theory Spec2Isabelle
  imports Main "HOL-Library.Word" "HOL-Library.AList"
begin

section \<open>Values of the Go runtime and of net/http\<close>

text \<open>
  A \<^verbatim>\<open>time.Duration\<close> is a signed 64-bit count of nanoseconds. It is a 64-bit word
  here: \<open>+\<close>, \<open>-\<close> and \<open>*\<close> wrap as Go's do, and Go's \<^verbatim>\<open><\<close>, \<^verbatim>\<open><=\<close>
  on it are the signed comparisons \<open><s\<close>, \<open>\<le>s\<close>.
\<close>

type_synonym Duration = "64 word"

definition Second :: Duration where
  "Second = 1000000000"

text \<open>
  A Go \<^verbatim>\<open>error\<close>. \<open>ErrNotFoundInCache\<close> is the distinguished value that the
  code compares errors with; every other error carries its message.
\<close>

datatype error = ErrNotFoundInCache | Err string

subsection \<open>Header maps\<close>

text \<open>
  An \<^verbatim>\<open>http.Header\<close> is a \<^verbatim>\<open>map[string][]string\<close>: here an association list
  from keys to value lists. The order of the list is the order in which a
  \<^verbatim>\<open>range\<close> over the map visits its keys.
\<close>

type_synonym Header = "(string \<times> string list) list"

definition toUpper :: "char \<Rightarrow> char" where
  "toUpper c =
     (case map_of (zip ''abcdefghijklmnopqrstuvwxyz'' ''ABCDEFGHIJKLMNOPQRSTUVWXYZ'') c of
        Some u \<Rightarrow> u | None \<Rightarrow> c)"

definition toLower :: "char \<Rightarrow> char" where
  "toLower c =
     (case map_of (zip ''ABCDEFGHIJKLMNOPQRSTUVWXYZ'' ''abcdefghijklmnopqrstuvwxyz'') c of
        Some l \<Rightarrow> l | None \<Rightarrow> c)"

definition validHeaderFieldByte :: "char \<Rightarrow> bool" where
  "validHeaderFieldByte c =
     (let n = (of_char c :: nat)
      in n = 33 \<or> (35 \<le> n \<and> n \<le> 39) \<or> n = 42 \<or> n = 43 \<or> n = 45 \<or> n = 46 \<or>
         (48 \<le> n \<and> n \<le> 57) \<or> (65 \<le> n \<and> n \<le> 90) \<or> (94 \<le> n \<and> n \<le> 122) \<or>
         n = 124 \<or> n = 126)"

text \<open>
  The loop of \<^verbatim>\<open>canonicalMIMEHeaderKey\<close>: \<open>upper\<close> says whether the next letter is
  the first one or follows a hyphen.
\<close>

fun canonicalise :: "bool \<Rightarrow> string \<Rightarrow> string" where
  "canonicalise upper [] = []"
| "canonicalise upper (c # cs) =
     (let c' = (if upper then toUpper c else toLower c)
      in c' # canonicalise (c' = CHR ''-'') cs)"

text \<open>
  \<^verbatim>\<open>textproto.CanonicalMIMEHeaderKey\<close>: a key with a byte that is not a header field
  byte is returned as it is.
\<close>

definition CanonicalMIMEHeaderKey :: "string \<Rightarrow> string" where
  "CanonicalMIMEHeaderKey s =
     (if list_all validHeaderFieldByte s then canonicalise True s else s)"

text \<open>\<open>index h k\<close> is Go's \<^verbatim>\<open>h[k]\<close>: the nil slice for a key that is absent.\<close>

definition index :: "Header \<Rightarrow> string \<Rightarrow> string list" where
  "index h k = (case map_of h k of None \<Rightarrow> [] | Some vs \<Rightarrow> vs)"

definition Add :: "Header \<Rightarrow> string \<Rightarrow> string \<Rightarrow> Header" where
  "Add h key v =
     (let k = CanonicalMIMEHeaderKey key in AList.update k (index h k @ [v]) h)"

definition Set :: "Header \<Rightarrow> string \<Rightarrow> string \<Rightarrow> Header" where
  "Set h key v = AList.update (CanonicalMIMEHeaderKey key) [v] h"

definition Get :: "Header \<Rightarrow> string \<Rightarrow> string" where
  "Get h key = (case index h (CanonicalMIMEHeaderKey key) of [] \<Rightarrow> '''' | v # _ \<Rightarrow> v)"

definition Del :: "Header \<Rightarrow> string \<Rightarrow> Header" where
  "Del h key = AList.delete (CanonicalMIMEHeaderKey key) h"

subsection \<open>Header maps as objects\<close>

text \<open>
  The header map of a response or of a resource is a Go reference: two variables may
  name one map, and a write through one is seen through the other. These maps live in
  an explicit heap, a list of header maps whose positions are the addresses.
  \<open>make_Header\<close> is \<^verbatim>\<open>make(http.Header)\<close>; an address outside the heap reads as
  the nil map (no keys).
\<close>

type_synonym addr = nat
type_synonym heap = "Header list"

definition make_Header :: "heap \<Rightarrow> addr \<times> heap" where
  "make_Header hp = (length hp, hp @ [[]])"

definition deref :: "heap \<Rightarrow> addr \<Rightarrow> Header" where
  "deref hp a = (if a < length hp then hp ! a else [])"

subsection \<open>Requests and responses\<close>

text \<open>
  The fields of \<^verbatim>\<open>http.Request\<close> and \<^verbatim>\<open>http.Response\<close> that the code reads or
  writes. A request's header map is only read by the cache and is threaded through
  the auth helper, so it is held by value; a response's header map is an address.
  A body is the text that reading it yields.
\<close>

record Request =
  Method :: string
  URL :: string
  Header :: Header
  TransferEncoding :: "string list"
  RemoteAddr :: string

record Response =
  StatusCode :: int
  ContentLength :: int
  Body :: string
  ResponseHeader :: addr
  ResponseRequest :: Request
  ResponseTransferEncoding :: "string list"

section \<open>The cache: examples/goproxy-cache/cacher.go\<close>

subsection \<open>Collaborators\<close>

text \<open>
  Modelled from the spec: the type \<^verbatim>\<open>Resource\<close> is declared outside cacher.go. A
  resource is what cacher.go reads of it: the results of the methods it calls, of
  which \<open>Age\<close> and \<open>MaxAge\<close> can fail, and the address of its header map. The
  clock does not advance between two calls of one method within one call of the cache.
\<close>

record Resource =
  Status :: int
  ResourceContentLength :: int
  ResourceHeader :: addr
  ResourceBody :: string
  Age :: "error + Duration"
  MaxAge :: "bool \<Rightarrow> error + Duration"
  HeuristicFreshness :: Duration
  IsStale :: bool
  MustValidate :: "bool \<Rightarrow> bool"
  HasExplicitExpiration :: bool
  Via :: string

text \<open>
  Modelled from the spec: the type \<^verbatim>\<open>Key\<close> is declared outside cacher.go. A cache
  key is made of a method, a URL and the serialised request headers that a Vary
  header names.
\<close>

record Key =
  KeyMethod :: string
  KeyURL :: string
  KeyVary :: "string list"

text \<open>
  Modelled from the spec: the type \<^verbatim>\<open>CacheControl\<close> is declared outside cacher.go.
  cacher.go indexes it with a directive name and takes the length of what it finds; a
  directive is present with a list of values, empty for a directive without a value.
  \<open>Has\<close> is true iff the directive appears, whatever its value.
\<close>

type_synonym CacheControl = "string \<rightharpoonup> string list"

definition Has :: "CacheControl \<Rightarrow> string \<Rightarrow> bool" where
  "Has cc name = (cc name \<noteq> None)"

definition values_of :: "CacheControl \<Rightarrow> string \<Rightarrow> string list" where
  "values_of cc name = (case cc name of None \<Rightarrow> [] | Some vs \<Rightarrow> vs)"

text \<open>
  Modelled from the spec: the type \<^verbatim>\<open>cacheRequest\<close> is declared outside cacher.go. A
  cache request holds the request, its key, its directives and whether it is cacheable.
\<close>

record cacheRequest =
  Request :: Request
  Key :: Key
  CacheControl :: CacheControl
  IsCacheable :: bool

text \<open>
  Modelled from the spec: the interface \<^verbatim>\<open>Cache\<close> is implemented outside
  cacher.go. \<open>Retrieve\<close> answers a key with a resource or an error; \<open>Store\<close> and
  \<open>Freshen\<close> are recorded in the order of the calls. What a later retrieval sees
  after them is the persistence layer's concern: cacher.go retrieves nothing after it
  has stored or freshened.
\<close>

datatype CacheCall = StoreCall Resource "string list" | FreshenCall Resource string

record Cache =
  Retrieve :: "string \<Rightarrow> error + Resource"
  Calls :: "CacheCall list"

definition Store :: "Cache \<Rightarrow> Resource \<Rightarrow> string list \<Rightarrow> Cache" where
  "Store cache r keys = cache\<lparr>Calls := Calls cache @ [StoreCall r keys]\<rparr>"

definition Freshen :: "Cache \<Rightarrow> Resource \<Rightarrow> string \<Rightarrow> Cache" where
  "Freshen cache r k = cache\<lparr>Calls := Calls cache @ [FreshenCall r k]\<rparr>"

text \<open>
  What cacher.go calls and does not define is a parameter of the
  model, so that every theorem holds for each implementation of it:
  \<^item> \<open>NewCacheRequest\<close>, which can fail;
  \<^item> \<open>Duration\<close>, the method of \<^verbatim>\<open>CacheControl\<close> that reads a directive as a
  duration, with Go's two results (the value, and the error or nil);
  \<^item> \<open>KeyString\<close>, \<open>ForMethod\<close> and \<open>Vary\<close>, the methods of \<^verbatim>\<open>Key\<close>;
  \<^item> \<open>NewResource\<close>, which may read the heap, and \<open>RemovePrivateHeaders\<close>,
  which may change the resource and the heap;
  \<^item> \<open>res\<close>, an identifier that \<^verbatim>\<open>newCacheAndForwardResponse\<close> uses and does not
  declare;
  \<^item> \<open>ErrorText\<close>, the method \<^verbatim>\<open>Error()\<close> of an error;
  \<^item> \<open>FormatSeconds\<close>, the text that \<^verbatim>\<open>fmt.Sprintf\<close> prints, without decimals, for
  \<^verbatim>\<open>math.Floor(age.Seconds())\<close>, which Go computes in floating point.
\<close>

record Env =
  NewCacheRequest :: "Request \<Rightarrow> error + cacheRequest"
  Duration :: "CacheControl \<Rightarrow> string \<Rightarrow> Duration \<times> error option"
  KeyString :: "Key \<Rightarrow> string"
  ForMethod :: "Key \<Rightarrow> string \<Rightarrow> Key"
  Vary :: "Key \<Rightarrow> string \<Rightarrow> Request \<Rightarrow> Key"
  NewResource :: "int \<Rightarrow> int \<Rightarrow> string \<Rightarrow> addr \<Rightarrow> heap \<Rightarrow> Resource"
  RemovePrivateHeaders :: "Resource \<Rightarrow> heap \<Rightarrow> Resource \<times> heap"
  res :: Resource
  ErrorText :: "error \<Rightarrow> string"
  FormatSeconds :: "Duration \<Rightarrow> string"

subsection \<open>freshness and needsValidation\<close>

text \<open>
  \<^verbatim>\<open>freshness\<close>: the duration that a requested resource will be fresh for.
  Calls of \<^verbatim>\<open>log.Printf\<close> are left out throughout.
\<close>

definition freshness :: "Env \<Rightarrow> bool \<Rightarrow> Resource \<Rightarrow> cacheRequest \<Rightarrow> error + Duration" where
  "freshness X shared resource cacheRequest =
     (case MaxAge resource shared of
        Inl err \<Rightarrow> Inl err
      | Inr maxAge \<Rightarrow>
          (case (if Has (CacheControl cacheRequest) ''max-age''
                 then (case Duration X (CacheControl cacheRequest) ''max-age'' of
                         (reqMaxAge, Some err) \<Rightarrow> Inl err
                       | (reqMaxAge, None) \<Rightarrow>
                           Inr (if reqMaxAge <s maxAge then reqMaxAge else maxAge))
                 else Inr maxAge) of
             Inl err \<Rightarrow> Inl err
           | Inr maxAge \<Rightarrow>
               (case Age resource of
                  Inl err \<Rightarrow> Inl err
                | Inr age \<Rightarrow>
                    if IsStale resource then Inr 0
                    else (let hFresh = HeuristicFreshness resource;
                              maxAge = (if maxAge <s hFresh then hFresh else maxAge)
                          in Inr (maxAge - age)))))"

definition needsValidation :: "Env \<Rightarrow> bool \<Rightarrow> Resource \<Rightarrow> cacheRequest \<Rightarrow> bool" where
  "needsValidation X shared resource cacheRequest =
     (if MustValidate resource shared then True
      else case freshness X shared resource cacheRequest of
        Inl err \<Rightarrow> True
      | Inr fresh \<Rightarrow>
          (let cc = CacheControl cacheRequest
           in if Has cc ''min-fresh'' \<and> snd (Duration X cc ''min-fresh'') \<noteq> None then True
              else if Has cc ''min-fresh'' \<and> fresh <s fst (Duration X cc ''min-fresh'')
              then True
              else if fresh \<le>s 0 \<and> Has cc ''max-stale'' then
                (if length (values_of cc ''max-stale'') = 0 then False
                 else if fresh * (- 1) \<le>s fst (Duration X cc ''max-stale'') then False
                 else fresh \<le>s 0)
              else fresh \<le>s 0))"

subsection \<open>Building responses\<close>

definition Hour :: Duration where
  "Hour = 3600 * Second"

definition ContentTypeText :: string where
  "ContentTypeText = ''text/plain''"

definition dquote :: char where
  "dquote = CHR 0x22"

definition HeuristicExpirationWarning :: string where
  "HeuristicExpirationWarning = ''113 - '' @ [dquote] @ ''Heuristic Expiration'' @ [dquote]"

definition ResponseIsStaleWarning :: string where
  "ResponseIsStaleWarning = ''110 - '' @ [dquote] @ ''Response is Stale'' @ [dquote]"

text \<open>
  Modelled from the spec: \<^verbatim>\<open>goproxy.NewResponse\<close> is declared outside cacher.go. It
  synthesises a response to a request, with the given status and a text body of the
  given content type, in a header map of its own.
\<close>

definition NewResponse :: "Request \<Rightarrow> string \<Rightarrow> int \<Rightarrow> string \<Rightarrow> heap \<Rightarrow> Response \<times> heap" where
  "NewResponse r contentType status body hp =
     (let (h, hp) = make_Header hp;
          hp = hp[h := Add (deref hp h) ''Content-Type'' contentType]
      in (\<lparr>StatusCode = status, ContentLength = int (length body), Body = body,
           ResponseHeader = h, ResponseRequest = r,
           ResponseTransferEncoding = TransferEncoding r\<rparr>, hp))"

text \<open>
  \<^verbatim>\<open>newResponse\<close>. For a HEAD request or a status other than 200 the body is closed
  and replaced by an empty buffer; closing has no effect on the values modelled here.
\<close>

definition newResponse :: "Request \<Rightarrow> int \<Rightarrow> int \<Rightarrow> addr \<Rightarrow> string \<Rightarrow> Response" where
  "newResponse request statusCode contentLength headers body =
     \<lparr>StatusCode = statusCode, ContentLength = contentLength,
      Body = (if Method request = ''HEAD'' \<or> statusCode \<noteq> 200 then [] else body),
      ResponseHeader = headers, ResponseRequest = request,
      ResponseTransferEncoding = TransferEncoding request\<rparr>"

text \<open>
  The two nested loops of \<^verbatim>\<open>newResponseParameters\<close>: every value of every key of
  the resource's header map is added to \<open>headers\<close>.
\<close>

definition copy_headers :: "Header \<Rightarrow> Header \<Rightarrow> Header" where
  "copy_headers source headers =
     fold (\<lambda>(key, mimeheaders) h. fold (\<lambda>header h. Add h key header) mimeheaders h)
       source headers"

text \<open>
  \<^verbatim>\<open>newResponseParameters\<close>. Its results are the status code, the content length, the
  address of the header map and the body, or the error (Go's results
  \<^verbatim>\<open>500, -1, nil, nil, err\<close>); the heap is returned with them.
\<close>

definition newResponseParameters ::
  "Env \<Rightarrow> bool \<Rightarrow> cacheRequest \<Rightarrow> Resource \<Rightarrow> heap \<Rightarrow>
     (error + int \<times> int \<times> addr \<times> string) \<times> heap" where
  "newResponseParameters X shared cacheRequest resource hp =
     (case Age resource of
        Inl err \<Rightarrow> (Inl err, hp)
      | Inr age \<Rightarrow>
          (let contentLength = ResourceContentLength resource;
               statusCode = Status resource;
               (headers, hp) = make_Header hp;
               hp = hp[headers :=
                      copy_headers (deref hp (ResourceHeader resource)) (deref hp headers)];
               hp = (if 24 * Hour <s age \<and> 24 * Hour <s HeuristicFreshness resource
                     then hp[headers := Add (deref hp headers) ''Warning''
                                          HeuristicExpirationWarning]
                     else hp);
               stale = (case freshness X shared resource cacheRequest of
                          Inl err \<Rightarrow> True
                        | Inr fresh \<Rightarrow> fresh \<le>s 0);
               hp = (if stale
                     then hp[headers := Add (deref hp headers) ''Warning''
                                          ResponseIsStaleWarning]
                     else hp);
               hp = hp[headers := Set (deref hp headers) ''Age'' (FormatSeconds X age)];
               hp = hp[headers := Set (deref hp headers) ''Via'' (Via resource)];
               body = ResourceBody resource
           in (Inr (statusCode, contentLength, headers, body), hp)))"

definition newCachedResponse ::
  "Env \<Rightarrow> bool \<Rightarrow> cacheRequest \<Rightarrow> Resource \<Rightarrow> heap \<Rightarrow> Response \<times> heap" where
  "newCachedResponse X shared cacheRequest resource hp =
     (case newResponseParameters X shared cacheRequest resource hp of
        (Inl err, hp) \<Rightarrow>
          NewResponse (Request cacheRequest) ContentTypeText 500
            (''Error calculating age: '' @ ErrorText X err) hp
      | (Inr (statusCode, contentLength, headers, body), hp) \<Rightarrow>
          (newResponse (Request cacheRequest) statusCode contentLength headers body, hp))"

subsection \<open>lookup\<close>

text \<open>
  \<^verbatim>\<open>lookup\<close> returns the resource, or the error. \<^verbatim>\<open>cacheRequest.Method\<close> is the
  method of the request that the cache request wraps.
\<close>

definition lookup :: "Env \<Rightarrow> Cache \<Rightarrow> cacheRequest \<Rightarrow> heap \<Rightarrow> error + Resource" where
  "lookup X cache cacheRequest hp =
     (let cacheKey = KeyString X (Key cacheRequest)
      in case Retrieve cache cacheKey of
           Inl err \<Rightarrow>
             if err = ErrNotFoundInCache \<and> Method (Request cacheRequest) = ''HEAD'' then
               (case Retrieve cache (KeyString X (ForMethod X (Key cacheRequest) ''GET'')) of
                  Inl err \<Rightarrow> Inl err
                | Inr resource \<Rightarrow>
                    if HasExplicitExpiration resource \<and> IsCacheable cacheRequest
                    then Inr resource
                    else Inl ErrNotFoundInCache)
             else Inl err
         | Inr resource \<Rightarrow>
             (let vary = Get (deref hp (ResourceHeader resource)) ''Vary''
              in if vary \<noteq> [] then
                   (case Retrieve cache
                           (KeyString X (Vary X (Key cacheRequest) vary (Request cacheRequest))) of
                      Inl err \<Rightarrow> Inl err
                    | Inr resource \<Rightarrow> Inr resource)
                 else Inr resource))"

subsection \<open>The request path\<close>

text \<open>
  \<^verbatim>\<open>TryServeCachedResponse\<close> returns the request and the response, \<open>None\<close> for
  Go's nil: the proxy then forwards the request to the origin.
\<close>

definition TryServeCachedResponse ::
  "Env \<Rightarrow> bool \<Rightarrow> Cache \<Rightarrow> Request \<Rightarrow> heap \<Rightarrow> Request \<times> Response option \<times> heap" where
  "TryServeCachedResponse X shared cache request hp =
     (case NewCacheRequest X request of
        Inl err \<Rightarrow>
          (let (r, hp) = NewResponse request ContentTypeText 500 (ErrorText X err) hp
           in (request, Some r, hp))
      | Inr cacheRequest \<Rightarrow>
          if \<not> IsCacheable cacheRequest then (request, None, hp)
          else
            (case lookup X cache cacheRequest hp of
               Inl err \<Rightarrow>
                 if err \<noteq> ErrNotFoundInCache then
                   (let (r, hp) = NewResponse request ContentTypeText 500 (ErrorText X err) hp
                    in (request, Some r, hp))
                 else if Has (CacheControl cacheRequest) ''only-if-cached'' then
                   (let (r, hp) = NewResponse request ContentTypeText 504 ''key not in cache'' hp
                    in (request, Some r, hp))
                 else (request, None, hp)
             | Inr resource \<Rightarrow>
                 if needsValidation X shared resource cacheRequest then
                   (if Has (CacheControl cacheRequest) ''only-if-cached'' then
                      (let (r, hp) =
                             NewResponse request ContentTypeText 504 ''key not in cache'' hp
                       in (request, Some r, hp))
                    else (request, None, hp))
                 else
                   (let (r, hp) = newCachedResponse X shared cacheRequest resource hp
                    in (request, Some r, hp))))"

subsection \<open>The response path\<close>

text \<open>
  \<^verbatim>\<open>newCacheAndForwardResponse\<close>. The resource that it stores is \<^verbatim>\<open>res\<close>, which it
  does not declare; the resource that it builds from the response comes after the call
  of \<^verbatim>\<open>Store\<close>. The error of \<^verbatim>\<open>Store\<close> is only logged.
\<close>

definition newCacheAndForwardResponse ::
  "Env \<Rightarrow> bool \<Rightarrow> Cache \<Rightarrow> cacheRequest \<Rightarrow> Response \<Rightarrow> heap \<Rightarrow> Response \<times> Cache \<times> heap" where
  "newCacheAndForwardResponse X shared cache cacheRequest response hp =
     (let statusCode = StatusCode response;
          contentLength = ContentLength response;
          body = Body response;
          headers = ResponseHeader response;
          keys = [KeyString X (Key cacheRequest)];
          vary = Get (deref hp headers) ''Vary'';
          keys = (if vary \<noteq> []
                  then keys @ [KeyString X (Vary X (Key cacheRequest) vary (Request cacheRequest))]
                  else keys);
          cache = Store cache (res X) keys;
          resource = NewResource X statusCode contentLength body headers hp;
          (resource, hp) = (if shared then RemovePrivateHeaders X resource hp
                            else (resource, hp))
      in case newResponseParameters X shared cacheRequest resource hp of
           (Inl err, hp) \<Rightarrow> (response, cache, hp)
         | (Inr (statusCode, contentLength, headers, body), hp) \<Rightarrow>
             (newResponse (Request cacheRequest) statusCode contentLength headers body,
              cache, hp))"

text \<open>
  \<^verbatim>\<open>TryCacheResponse\<close> returns the response, with the cache and the heap after it.
  \<open>err\<close> is the error of \<^verbatim>\<open>NewCacheRequest\<close>: the error of \<^verbatim>\<open>lookup\<close> in the
  branch of status 304 is another variable, declared in that block, so \<open>err\<close> is nil
  when the branch of status 200 reads it.
\<close>

definition TryCacheResponse ::
  "Env \<Rightarrow> bool \<Rightarrow> Cache \<Rightarrow> Response \<Rightarrow> heap \<Rightarrow> Response \<times> Cache \<times> heap" where
  "TryCacheResponse X shared cache response hp =
     (if StatusCode response \<noteq> 200 \<or> StatusCode response \<noteq> 304 then (response, cache, hp)
      else
        (case NewCacheRequest X (ResponseRequest response) of
           Inl err \<Rightarrow>
             (let (r, hp) = NewResponse (ResponseRequest response) ContentTypeText 500
                              (ErrorText X err) hp
              in (r, cache, hp))
         | Inr cacheRequest \<Rightarrow>
             (let err = (None :: error option)
              in if \<not> IsCacheable cacheRequest then (response, cache, hp)
                 else if StatusCode response = 304 then
                   (case lookup X cache cacheRequest hp of
                      Inl err \<Rightarrow>
                        if err \<noteq> ErrNotFoundInCache then
                          (let (r, hp) = NewResponse (ResponseRequest response) ContentTypeText
                                           500 (ErrorText X err) hp
                           in (r, cache, hp))
                        else (response, cache, hp)
                    | Inr resource \<Rightarrow>
                        (let cache = Freshen cache resource
                               (KeyString X (ForMethod X (Key cacheRequest) ''GET''));
                             (response, hp) = newCachedResponse X shared cacheRequest resource hp
                         in (response, cache, hp)))
                 else if StatusCode response = 200 then
                   (if err \<noteq> Some ErrNotFoundInCache then (response, cache, hp)
                    else newCacheAndForwardResponse X shared cache cacheRequest response hp)
                 else (response, cache, hp))))"

section \<open>Proxy authentication: ext/auth/basic.go\<close>

type_synonym AuthWithAddrFunc = "string \<Rightarrow> string \<Rightarrow> string \<Rightarrow> string \<times> string \<times> string \<times> bool"

definition proxyAuthorizationHeader :: string where
  "proxyAuthorizationHeader = ''Proxy-Authorization''"

text \<open>
  \<^verbatim>\<open>strings.SplitN(s, sep, 2)\<close> for a separator of one byte: the text before the
  first separator and the text after it, or \<open>s\<close> alone when it has no separator.
\<close>

definition SplitN2 :: "string \<Rightarrow> char \<Rightarrow> string list" where
  "SplitN2 s sep =
     (if sep \<in> set s
      then [takeWhile (\<lambda>c. c \<noteq> sep) s, tl (dropWhile (\<lambda>c. c \<noteq> sep) s)]
      else [s])"

text \<open>
  \<^verbatim>\<open>auth\<close>. \<open>DecodeString\<close> is \<^verbatim>\<open>base64.StdEncoding.DecodeString\<close>, a parameter. The
  request is a pointer in Go: the request after the call is returned with the results.
\<close>

definition auth ::
  "(string \<Rightarrow> error + string) \<Rightarrow> Request \<Rightarrow> AuthWithAddrFunc \<Rightarrow>
     (string \<times> string \<times> string \<times> bool) \<times> Request" where
  "auth DecodeString req f =
     (let authheader = SplitN2 (Get (Header req) proxyAuthorizationHeader) CHR '' '';
          req = req\<lparr>Header := Del (Header req) proxyAuthorizationHeader\<rparr>
      in if length authheader \<noteq> 2 \<or> authheader ! 0 \<noteq> ''Basic''
         then (([], [], [], False), req)
         else
           (case DecodeString (authheader ! 1) of
              Inl err \<Rightarrow> (([], [], [], False), req)
            | Inr userpassraw \<Rightarrow>
                (let userpass = SplitN2 userpassraw CHR '':''
                 in if length userpass \<noteq> 2 then (([], [], [], False), req)
                    else (f (RemoteAddr req) (userpass ! 0) (userpass ! 1), req))))"

section \<open>Examples\<close>

definition GET_x :: Request where
  "GET_x = \<lparr>Method = ''GET'', URL = ''http://example.org/x'', Header = [],
            TransferEncoding = [], RemoteAddr = ''10.0.0.1:4711''\<rparr>"

definition key_x :: Key where
  "key_x = \<lparr>KeyMethod = ''GET'', KeyURL = ''http://example.org/x'', KeyVary = []\<rparr>"

text \<open>A resource of age 10 s whose origin allows 60 s, with its header map at address 0.\<close>

definition fresh_resource :: Resource where
  "fresh_resource =
     \<lparr>Status = 200, ResourceContentLength = 5, ResourceHeader = 0, ResourceBody = ''hello'',
      Age = Inr (10 * Second), MaxAge = (\<lambda>shared. Inr (60 * Second)),
      HeuristicFreshness = 0, IsStale = False, MustValidate = (\<lambda>shared. False),
      HasExplicitExpiration = True, Via = ''1.1 goproxy''\<rparr>"

text \<open>A request for it that carries no directive.\<close>

definition plain_request :: cacheRequest where
  "plain_request =
     \<lparr>Request = GET_x, Key = key_x, CacheControl = Map.empty, IsCacheable = True\<rparr>"

text \<open>
  An implementation of the parameters: a cache request takes one directive without
  value from the header Cache-Control, a directive's duration is read from a short
  table of values, keys are serialised as method, URL and Vary parts, and the private
  header is Set-Cookie.
\<close>

definition seconds_table :: "string \<Rightarrow> Duration \<times> error option" where
  "seconds_table v =
     (case map_of [(''0'', 0), (''5'', 5 * Second), (''40'', 40 * Second),
                   (''50'', 50 * Second)] v of
        Some d \<Rightarrow> (d, None)
      | None \<Rightarrow> (0, Some (Err ''malformed directive'')))"

definition env0 :: Env where
  "env0 =
     \<lparr>NewCacheRequest = (\<lambda>r. Inr \<lparr>Request = r,
          Key = \<lparr>KeyMethod = Method r, KeyURL = URL r, KeyVary = []\<rparr>,
          CacheControl = (case index (Header r) ''Cache-Control'' of
              [] \<Rightarrow> Map.empty | d # ds \<Rightarrow> [d \<mapsto> []]),
          IsCacheable = (Method r = ''GET'' \<or> Method r = ''HEAD'')\<rparr>),
      Duration = (\<lambda>cc name. case cc name of
          Some (v # vs) \<Rightarrow> seconds_table v
        | _ \<Rightarrow> (0, Some (Err ''malformed directive''))),
      KeyString = (\<lambda>k. KeyMethod k @ '':'' @ KeyURL k @ concat (KeyVary k)),
      ForMethod = (\<lambda>k m. k\<lparr>KeyMethod := m\<rparr>),
      Vary = (\<lambda>k vary r. k\<lparr>KeyVary := [''::'' @ vary @ ''='' @ Get (Header r) vary]\<rparr>),
      NewResource = (\<lambda>statusCode contentLength body headers hp.
          fresh_resource\<lparr>Status := statusCode, ResourceContentLength := contentLength,
            ResourceHeader := headers, ResourceBody := body, Age := Inr 0\<rparr>),
      RemovePrivateHeaders = (\<lambda>r hp. (r, hp[ResourceHeader r := Del (deref hp (ResourceHeader r)) ''Set-Cookie''])),
      res = fresh_resource,
      ErrorText = (\<lambda>e. case e of ErrNotFoundInCache \<Rightarrow> ''not found in cache'' | Err m \<Rightarrow> m),
      FormatSeconds = (\<lambda>d. if d = 10 * Second then ''10'' else ''0'')\<rparr>"

text \<open>The heap of the examples: at address 0, the header map of the stored resource.\<close>

definition heap0 :: heap where
  "heap0 = [[(''Content-Type'', [''text/html'']), (''Set-Cookie'', [''id=7''])]]"

definition must_validate_resource :: Resource where
  "must_validate_resource = fresh_resource\<lparr>MustValidate := (\<lambda>shared. True)\<rparr>"

text \<open>A resource of age 100 s whose origin allows 60 s: stale by 40 s.\<close>

definition stale_resource :: Resource where
  "stale_resource = fresh_resource\<lparr>Age := Inr (100 * Second)\<rparr>"

text \<open>
  A resource of age 10 s whose origin allows 100 s, with a heuristic freshness of
  50 s.
\<close>

definition heuristic_resource :: Resource where
  "heuristic_resource =
     fresh_resource\<lparr>MaxAge := (\<lambda>shared. Inr (100 * Second)),
                    HeuristicFreshness := 50 * Second\<rparr>"

definition max_stale_40_request :: cacheRequest where
  "max_stale_40_request = plain_request\<lparr>CacheControl := [''max-stale'' \<mapsto> [''40'']]\<rparr>"

definition max_age_5_request :: cacheRequest where
  "max_age_5_request = plain_request\<lparr>CacheControl := [''max-age'' \<mapsto> [''5'']]\<rparr>"

definition empty_cache :: Cache where
  "empty_cache = \<lparr>Retrieve = (\<lambda>k. Inl ErrNotFoundInCache), Calls = []\<rparr>"

text \<open>A cache that holds the resource under the key of \<open>GET_x\<close> only.\<close>

definition cache_x :: Cache where
  "cache_x =
     \<lparr>Retrieve = (\<lambda>k. if k = ''GET:http://example.org/x'' then Inr fresh_resource
                       else Inl ErrNotFoundInCache),
      Calls = []\<rparr>"

definition HEAD_x :: Request where
  "HEAD_x = GET_x\<lparr>Method := ''HEAD''\<rparr>"

definition head_request :: cacheRequest where
  "head_request =
     \<lparr>Request = HEAD_x, Key = key_x\<lparr>KeyMethod := ''HEAD''\<rparr>, CacheControl = Map.empty,
      IsCacheable = True\<rparr>"

definition only_if_cached_x :: Request where
  "only_if_cached_x = GET_x\<lparr>Header := [(''Cache-Control'', [''only-if-cached''])]\<rparr>"

text \<open>Responses of the origin to \<open>GET_x\<close>, with the header map at address 0.\<close>

definition origin_200 :: Response where
  "origin_200 =
     \<lparr>StatusCode = 200, ContentLength = 5, Body = ''hello'', ResponseHeader = 0,
      ResponseRequest = GET_x, ResponseTransferEncoding = []\<rparr>"

definition origin_304 :: Response where
  "origin_304 = origin_200\<lparr>StatusCode := 304, ContentLength := 0, Body := []\<rparr>"

text \<open>
  A request with the credentials of user \<open>user\<close>, a decoder that knows their
  encoding, and an authenticator that accepts this user.
\<close>

definition proxy_request :: Request where
  "proxy_request =
     GET_x\<lparr>Header := [(''Accept'', [''*/*'']),
                       (''Proxy-Authorization'', [''Basic dXNlcjpwYXNz''])]\<rparr>"

definition decode0 :: "string \<Rightarrow> error + string" where
  "decode0 s = (if s = ''dXNlcjpwYXNz'' then Inr ''user:pass'' else Inl (Err ''illegal base64 data''))"

definition accept_user :: AuthWithAddrFunc where
  "accept_user addr user passwd = (addr, user, passwd, user = ''user'' \<and> passwd = ''pass'')"

text \<open>
  A resource that is marked stale, so that its freshness is 0; a request whose
  \<open>max-stale\<close> has a value that is no number; a request whose \<open>min-fresh\<close> has one;
  a request with a \<open>max-stale\<close> of 0 s.
\<close>

definition marked_stale_resource :: Resource where
  "marked_stale_resource = fresh_resource\<lparr>IsStale := True\<rparr>"

definition max_stale_abc_request :: cacheRequest where
  "max_stale_abc_request = plain_request\<lparr>CacheControl := [''max-stale'' \<mapsto> [''abc'']]\<rparr>"

definition min_fresh_abc_request :: cacheRequest where
  "min_fresh_abc_request = plain_request\<lparr>CacheControl := [''min-fresh'' \<mapsto> [''abc'']]\<rparr>"

definition max_stale_0_request :: cacheRequest where
  "max_stale_0_request = plain_request\<lparr>CacheControl := [''max-stale'' \<mapsto> [''0'']]\<rparr>"

text \<open>
  A resource whose freshness is the least duration: its origin max-age is 0 and its
  age is the least duration.
\<close>

definition least_fresh_resource :: Resource where
  "least_fresh_resource =
     fresh_resource\<lparr>Age := Inr (- 9223372036854775808), MaxAge := (\<lambda>shared. Inr 0)\<rparr>"

section \<open>Theorems about cacher.go\<close>

subsection \<open>Helper facts\<close>

lemma canonical_keys:
  "CanonicalMIMEHeaderKey ''Vary'' = ''Vary''"
  "CanonicalMIMEHeaderKey ''Content-Type'' = ''Content-Type''"
  "CanonicalMIMEHeaderKey ''Set-Cookie'' = ''Set-Cookie''"
  "CanonicalMIMEHeaderKey ''Warning'' = ''Warning''"
  "CanonicalMIMEHeaderKey ''Age'' = ''Age''"
  "CanonicalMIMEHeaderKey ''Via'' = ''Via''"
  "CanonicalMIMEHeaderKey ''Cache-Control'' = ''Cache-Control''"
  "CanonicalMIMEHeaderKey ''Proxy-Authorization'' = ''Proxy-Authorization''"
  by code_simp+

lemmas example_defs =
  env0_def fresh_resource_def plain_request_def GET_x_def key_x_def heap0_def
  must_validate_resource_def stale_resource_def heuristic_resource_def
  max_stale_40_request_def max_age_5_request_def empty_cache_def cache_x_def HEAD_x_def
  head_request_def only_if_cached_x_def origin_200_def origin_304_def proxy_request_def
  decode0_def accept_user_def seconds_table_def Second_def

lemmas header_defs = Add_def Set_def Get_def Del_def index_def deref_def make_Header_def

text \<open>
  A difference of durations does not wrap when the smaller one is not negative.
\<close>

lemma sint_diff_pos:
  fixes a m :: Duration
  assumes "0 \<le>s a" and "a <s m"
  shows "0 <s m - a"
proof -
  have a: "0 \<le> sint a" and am: "sint a < sint m"
    using assms by (simp_all add: word_sle_eq word_sless_alt)
  have "sint m < 2 ^ 63" using sint_lt [of m] by simp
  then have "sint (m - a) = sint m - sint a"
    using a am by (simp add: sint_word_ariths signed_take_bit_int_eq_self)
  then show ?thesis using am by (simp add: word_sless_alt)
qed

text \<open>
  The negation that \<open>needsValidation\<close> compares \<open>max-stale\<close> with is the
  magnitude of a freshness that is not positive, but for the least duration, which
  Go's negation maps to itself.
\<close>

lemma sint_negated_freshness:
  fixes fresh :: Duration
  assumes "fresh \<le>s 0" and "fresh \<noteq> - 9223372036854775808"
  shows "sint (fresh * (- 1)) = \<bar>sint fresh\<bar>"
proof -
  have le: "sint fresh \<le> 0" using assms(1) by (simp add: word_sle_eq)
  have "sint fresh \<noteq> - 9223372036854775808"
  proof
    assume "sint fresh = - 9223372036854775808"
    then have "word_of_int (sint fresh) = (word_of_int (- 9223372036854775808) :: Duration)"
      by simp
    then show False using assms(2) by simp
  qed
  moreover have "- (2 ^ 63) \<le> sint fresh" using sint_ge [of fresh] by simp
  ultimately have "- (2 ^ 63) < sint fresh" by simp
  then have "sint (- fresh) = - sint fresh"
    using le by (simp add: sint_word_ariths signed_take_bit_int_eq_self)
  then show ?thesis using le by simp
qed

lemma freshness_no_directive:
  assumes "CacheControl cacheRequest = Map.empty"
    and "MaxAge resource shared = Inr M" and "Age resource = Inr A"
    and "\<not> IsStale resource"
  shows "freshness X shared resource cacheRequest =
    Inr ((if M <s HeuristicFreshness resource then HeuristicFreshness resource else M) - A)"
  using assms by (simp add: freshness_def Has_def Let_def)

lemma NewResponse_fields:
  assumes "NewResponse r contentType status body hp = (resp, hp')"
  shows "StatusCode resp = status \<and> Body resp = body \<and> ResponseRequest resp = r \<and>
         ResponseHeader resp = length hp \<and>
         hp' = hp @ [[(CanonicalMIMEHeaderKey ''Content-Type'', [contentType])]]"
  using assms by (auto simp add: NewResponse_def header_defs Let_def)

subsection \<open>The response path\<close>

text \<open>
  C2. For every response, whatever its status code, \<open>TryCacheResponse\<close> returns the
  response it was given, and leaves the cache (no call of \<open>Store\<close> or \<open>Freshen\<close>
  is recorded) and the heap as they were: a status code differs from 200 or from 304,
  so the first test always succeeds.
\<close>

theorem TryCacheResponse_returns_response:
  "TryCacheResponse X shared cache response hp = (response, cache, hp)"
  by (cases "StatusCode response = 200") (simp_all add: TryCacheResponse_def)

theorem TryCacheResponse_returns_response_witness:
  "TryCacheResponse env0 False cache_x origin_304 heap0 = (origin_304, cache_x, heap0) \<and>
   Calls cache_x = []"
  using TryCacheResponse_returns_response [of env0 False cache_x origin_304 heap0]
  by (simp add: cache_x_def)

text \<open>
  C1. The claim is that a response of status 200 to a cacheable request is stored and
  answered from the stored resource. The code does not: such a response comes back
  as it was given, nothing is stored, and in a shared cache its private headers stay.
\<close>

theorem TryCacheResponse_200_not_stored:
  assumes "StatusCode response = 200"
    and "NewCacheRequest X (ResponseRequest response) = Inr cacheRequest"
    and "IsCacheable cacheRequest"
  shows "TryCacheResponse X shared cache response hp = (response, cache, hp)"
  using assms by (simp add: TryCacheResponse_def)

theorem TryCacheResponse_200_not_stored_witness:
  "StatusCode origin_200 = 200 \<and>
   IsCacheable (projr (NewCacheRequest env0 (ResponseRequest origin_200))) \<and>
   TryCacheResponse env0 True empty_cache origin_200 heap0 = (origin_200, empty_cache, heap0) \<and>
   Calls empty_cache = [] \<and>
   index (deref heap0 (ResponseHeader origin_200)) ''Set-Cookie'' = [''id=7'']"
  using TryCacheResponse_200_not_stored [of origin_200 env0
    "projr (NewCacheRequest env0 (ResponseRequest origin_200))" True empty_cache heap0]
  by (simp add: example_defs header_defs)

subsection \<open>needsValidation and freshness\<close>

text \<open>
  C3. For every resource with \<open>MustValidate resource shared\<close>, \<open>needsValidation\<close>
  returns true, for every request: whatever the freshness is (and whether or not it
  can be computed), and whatever \<open>max-stale\<close> or \<open>min-fresh\<close> the client sent.
\<close>

theorem needsValidation_MustValidate:
  assumes "MustValidate resource shared"
  shows "needsValidation X shared resource cacheRequest = True"
  using assms by (simp add: needsValidation_def)

theorem needsValidation_MustValidate_witness:
  "MustValidate must_validate_resource True \<and>
   needsValidation env0 True must_validate_resource max_stale_40_request = True"
  using needsValidation_MustValidate [of must_validate_resource True env0 max_stale_40_request]
  by (simp add: must_validate_resource_def)

text \<open>
  What \<open>needsValidation\<close> returns for a freshness that is not positive, when
  \<open>MustValidate\<close> is false and the request carries no \<open>min-fresh\<close>: the duration
  that it compares is the first result of \<open>Duration\<close>, whether or not the second one
  is an error, and it compares it with Go's \<^verbatim>\<open>freshness * -1\<close>.
\<close>

lemma needsValidation_stale_cases:
  assumes "\<not> MustValidate resource shared"
    and "freshness X shared resource cacheRequest = Inr fresh"
    and "fresh \<le>s 0"
    and "\<not> Has (CacheControl cacheRequest) ''min-fresh''"
  shows "needsValidation X shared resource cacheRequest =
           (if Has (CacheControl cacheRequest) ''max-stale'' \<and>
               values_of (CacheControl cacheRequest) ''max-stale'' = [] then False
            else if Has (CacheControl cacheRequest) ''max-stale'' \<and>
               fresh * (- 1) \<le>s fst (Duration X (CacheControl cacheRequest) ''max-stale'')
            then False
            else True)"
  using assms by (simp add: needsValidation_def Let_def)

text \<open>
  C4. The claim is that, for a freshness that is not positive, \<open>needsValidation\<close>
  returns false only for a \<open>max-stale\<close> without value or with a value that is at
  least the magnitude of the freshness, and true otherwise. The code does not: when
  \<open>max-stale\<close> has a value that \<open>Duration\<close> cannot read, the error is discarded
  and the duration returned beside it is compared; whenever that duration is at least
  the negated freshness, \<open>needsValidation\<close> returns false.
\<close>

theorem needsValidation_unread_max_stale:
  assumes "\<not> MustValidate resource shared"
    and "freshness X shared resource cacheRequest = Inr fresh"
    and "fresh \<le>s 0"
    and "\<not> Has (CacheControl cacheRequest) ''min-fresh''"
    and "Has (CacheControl cacheRequest) ''max-stale''"
    and "values_of (CacheControl cacheRequest) ''max-stale'' \<noteq> []"
    and "Duration X (CacheControl cacheRequest) ''max-stale'' = (d, Some err)"
    and "fresh * (- 1) \<le>s d"
  shows "needsValidation X shared resource cacheRequest = False"
  using assms by (simp add: needsValidation_def Let_def)

theorem needsValidation_unread_max_stale_witness:
  "freshness env0 False marked_stale_resource max_stale_abc_request = Inr 0 \<and>
   values_of (CacheControl max_stale_abc_request) ''max-stale'' = [''abc''] \<and>
   Duration env0 (CacheControl max_stale_abc_request) ''max-stale'' =
     (0, Some (Err ''malformed directive'')) \<and>
   needsValidation env0 False marked_stale_resource max_stale_abc_request = False"
  using needsValidation_unread_max_stale [of marked_stale_resource False env0
    max_stale_abc_request 0 0 "Err ''malformed directive''"]
  by (simp add: freshness_def Has_def values_of_def Let_def marked_stale_resource_def
      max_stale_abc_request_def example_defs)

text \<open>
  The sibling test of \<open>min-fresh\<close> does not discard the error: for the same resource
  and the same unreadable value, \<open>needsValidation\<close> returns true.
\<close>

lemma needsValidation_unread_min_fresh_example:
  "Duration env0 (CacheControl min_fresh_abc_request) ''min-fresh'' =
     (0, Some (Err ''malformed directive'')) \<and>
   needsValidation env0 False marked_stale_resource min_fresh_abc_request = True"
  by (simp add: needsValidation_def freshness_def Has_def Let_def marked_stale_resource_def
      min_fresh_abc_request_def example_defs)

text \<open>
  The negation wraps for the least duration: a resource whose freshness is the least
  duration, asked for with a \<open>max-stale\<close> of 0 s, needs no validation, though 0 is
  less than the magnitude of its freshness.
\<close>

lemma needsValidation_least_freshness_example:
  "freshness env0 False least_fresh_resource max_stale_0_request =
     Inr (- 9223372036854775808) \<and>
   Duration env0 (CacheControl max_stale_0_request) ''max-stale'' = (0, None) \<and>
   sint (0 :: Duration) < \<bar>sint (- 9223372036854775808 :: Duration)\<bar> \<and>
   needsValidation env0 False least_fresh_resource max_stale_0_request = False"
  by (simp add: needsValidation_def freshness_def Has_def values_of_def Let_def
      least_fresh_resource_def max_stale_0_request_def example_defs word_sle_eq word_sless_alt)

text \<open>
  C5, as the claim states it, fails: a resource that is not stale, of age 10 s, whose
  origin allows 100 s and whose heuristic freshness is 50 s, asked for with a
  \<open>max-age\<close> of 5 s, has a freshness of 40 s, which exceeds 5 s - 10 s.
\<close>

theorem freshness_request_max_age_counterexample:
  "\<not> IsStale heuristic_resource \<and>
   MaxAge heuristic_resource False = Inr (100 * Second) \<and>
   Age heuristic_resource = Inr (10 * Second) \<and>
   Has (CacheControl max_age_5_request) ''max-age'' \<and>
   Duration env0 (CacheControl max_age_5_request) ''max-age'' = (5 * Second, None) \<and>
   5 * Second <s 100 * Second \<and>
   freshness env0 False heuristic_resource max_age_5_request = Inr (40 * Second) \<and>
   \<not> (40 * Second \<le>s 5 * Second - 10 * Second)"
  by (simp add: freshness_def Has_def Let_def example_defs word_sle_eq word_sless_alt)

text \<open>
  C5, amended. For every resource that is not stale and every request with a
  \<open>max-age\<close> that is read without error as \<open>d\<close>, smaller than the origin's
  \<open>MaxAge\<close>: \<open>d\<close> takes the place of the origin's value, the heuristic freshness
  takes the place of \<open>d\<close> when it is larger, and the freshness is the larger of the
  two minus the age. It is \<open>d\<close> minus the age when the heuristic freshness is at most
  \<open>d\<close>.
\<close>

theorem freshness_request_max_age:
  assumes "\<not> IsStale resource"
    and "MaxAge resource shared = Inr M" and "Age resource = Inr A"
    and "Has (CacheControl cacheRequest) ''max-age''"
    and "Duration X (CacheControl cacheRequest) ''max-age'' = (d, None)"
    and "d <s M"
  shows "freshness X shared resource cacheRequest =
           Inr ((if d <s HeuristicFreshness resource then HeuristicFreshness resource else d) - A)
         \<and> (HeuristicFreshness resource \<le>s d \<longrightarrow>
              freshness X shared resource cacheRequest = Inr (d - A))"
  using assms by (auto simp add: freshness_def Let_def signed.not_less)

theorem freshness_request_max_age_witness:
  "freshness env0 False fresh_resource max_age_5_request = Inr (5 * Second - 10 * Second) \<and>
   freshness env0 False heuristic_resource max_age_5_request =
     Inr (50 * Second - 10 * Second)"
  using freshness_request_max_age [of fresh_resource False "60 * Second" "10 * Second"
      max_age_5_request env0 "5 * Second"]
    freshness_request_max_age [of heuristic_resource False "100 * Second" "10 * Second"
      max_age_5_request env0 "5 * Second"]
  by (simp add: Has_def example_defs word_sle_eq word_sless_alt)

text \<open>
  C8, as the claim states it, fails: a resource of age 10 s whose origin allows 60 s
  and demands validation needs validation, though the request carries no directive.
\<close>

theorem needsValidation_fresh_counterexample:
  "MaxAge must_validate_resource False = Inr (60 * Second) \<and>
   Age must_validate_resource = Inr (10 * Second) \<and>
   10 * Second <s 60 * Second \<and>
   CacheControl plain_request = Map.empty \<and>
   needsValidation env0 False must_validate_resource plain_request = True"
  by (simp add: needsValidation_def example_defs word_sless_alt)

text \<open>
  C8, amended. For every resource for which \<open>MustValidate\<close> is false, which is not
  stale, and whose origin max-age \<open>M\<close> and age \<open>A\<close> are computed without error
  with \<open>0 \<le> A < M\<close>, and for every request that carries no directive,
  \<open>needsValidation\<close> returns false.
\<close>

theorem needsValidation_fresh_no_directive:
  assumes "\<not> MustValidate resource shared" and "\<not> IsStale resource"
    and "MaxAge resource shared = Inr M" and "Age resource = Inr A"
    and "0 \<le>s A" and "A <s M"
    and "CacheControl cacheRequest = Map.empty"
  shows "needsValidation X shared resource cacheRequest = False"
proof -
  let ?m = "if M <s HeuristicFreshness resource then HeuristicFreshness resource else M"
  have "A <s ?m" using assms(6) by (auto intro: signed.less_trans)
  then have "0 <s ?m - A" using assms(5) by (rule sint_diff_pos [rotated])
  then have "\<not> (?m - A \<le>s 0)" by (simp add: signed.not_le)
  moreover have "freshness X shared resource cacheRequest = Inr (?m - A)"
    using assms by (simp add: freshness_no_directive)
  ultimately show ?thesis
    using assms(1,7) by (simp add: needsValidation_def Has_def Let_def)
qed

theorem needsValidation_fresh_no_directive_witness:
  "needsValidation env0 False fresh_resource plain_request = False"
  using needsValidation_fresh_no_directive [of fresh_resource False "60 * Second"
    "10 * Second" plain_request env0]
  by (simp add: example_defs word_sle_eq word_sless_alt)

text \<open>
  What else the amended C8 asks for is needed as well: a resource marked stale needs
  validation whatever its max-age and age are.
\<close>

lemma needsValidation_IsStale_example:
  "needsValidation env0 False (fresh_resource\<lparr>IsStale := True\<rparr>) plain_request = True"
  by (simp add: needsValidation_def freshness_def Has_def example_defs)

subsection \<open>The request path\<close>

text \<open>
  C6. Let the cache request of a request be cacheable and carry \<open>only-if-cached\<close>.
  Whenever \<open>lookup\<close> misses with \<open>ErrNotFoundInCache\<close>, or finds a resource that
  needs validation, \<open>TryServeCachedResponse\<close> returns a response, so that the request
  is not forwarded to the origin: a response to this request of status 504, of content
  type text/plain, with the body \<open>key not in cache\<close>.
\<close>

theorem TryServeCachedResponse_only_if_cached:
  assumes "NewCacheRequest X request = Inr cacheRequest"
    and "IsCacheable cacheRequest"
    and "Has (CacheControl cacheRequest) ''only-if-cached''"
    and "lookup X cache cacheRequest hp = Inl ErrNotFoundInCache \<or>
         (\<exists>resource. lookup X cache cacheRequest hp = Inr resource \<and>
            needsValidation X shared resource cacheRequest)"
  shows "\<exists>r hp'. TryServeCachedResponse X shared cache request hp = (request, Some r, hp') \<and>
           StatusCode r = 504 \<and> Body r = ''key not in cache'' \<and>
           ResponseRequest r = request \<and>
           index (deref hp' (ResponseHeader r)) ''Content-Type'' = [''text/plain'']"
proof -
  obtain r hp' where new: "NewResponse request ContentTypeText 504 ''key not in cache'' hp = (r, hp')"
    by (cases "NewResponse request ContentTypeText 504 ''key not in cache'' hp") blast
  have "TryServeCachedResponse X shared cache request hp = (request, Some r, hp')"
    using assms new by (auto simp add: TryServeCachedResponse_def)
  moreover have "index (deref hp' (ResponseHeader r)) ''Content-Type'' = [''text/plain'']"
    using NewResponse_fields [OF new]
    by (simp add: canonical_keys index_def deref_def ContentTypeText_def)
  ultimately show ?thesis
    using NewResponse_fields [OF new] by simp
qed

theorem TryServeCachedResponse_only_if_cached_witness:
  "TryServeCachedResponse env0 False empty_cache only_if_cached_x heap0 =
     (only_if_cached_x,
      Some \<lparr>StatusCode = 504, ContentLength = 16, Body = ''key not in cache'',
            ResponseHeader = 1, ResponseRequest = only_if_cached_x,
            ResponseTransferEncoding = []\<rparr>,
      heap0 @ [[(''Content-Type'', [''text/plain''])]])"
proof -
  have "NewCacheRequest env0 only_if_cached_x =
      Inr \<lparr>Request = only_if_cached_x, Key = key_x,
           CacheControl = [''only-if-cached'' \<mapsto> []], IsCacheable = True\<rparr>"
    by (simp add: example_defs index_def)
  from TryServeCachedResponse_only_if_cached [OF this, of empty_cache heap0 False]
  obtain r hp' where
    "TryServeCachedResponse env0 False empty_cache only_if_cached_x heap0 =
       (only_if_cached_x, Some r, hp')"
    by (auto simp add: Has_def lookup_def example_defs)
  then show ?thesis
    by (simp add: TryServeCachedResponse_def lookup_def NewResponse_def Has_def
        ContentTypeText_def header_defs canonical_keys example_defs)
qed

subsection \<open>lookup\<close>

text \<open>
  C7. For a HEAD request whose own key \<open>Retrieve\<close> does not find, \<open>lookup\<close>
  retrieves the key of the method GET. It returns the resource found there only when
  the resource has an explicit expiration (and the request is cacheable); when the
  resource has none, \<open>lookup\<close> returns \<open>ErrNotFoundInCache\<close>; and when the key of
  the method GET is not found either, the error of that retrieval is returned.
\<close>

theorem lookup_HEAD_from_GET:
  assumes "Method (Request cacheRequest) = ''HEAD''"
    and "Retrieve cache (KeyString X (Key cacheRequest)) = Inl ErrNotFoundInCache"
  shows "lookup X cache cacheRequest hp =
           (case Retrieve cache (KeyString X (ForMethod X (Key cacheRequest) ''GET'')) of
              Inl err \<Rightarrow> Inl err
            | Inr resource \<Rightarrow>
                if HasExplicitExpiration resource \<and> IsCacheable cacheRequest
                then Inr resource else Inl ErrNotFoundInCache)
         \<and> (\<forall>resource. lookup X cache cacheRequest hp = Inr resource \<longrightarrow>
               Retrieve cache (KeyString X (ForMethod X (Key cacheRequest) ''GET'')) =
                 Inr resource \<and> HasExplicitExpiration resource)
         \<and> (\<forall>resource.
               Retrieve cache (KeyString X (ForMethod X (Key cacheRequest) ''GET'')) =
                 Inr resource \<and> \<not> HasExplicitExpiration resource \<longrightarrow>
               lookup X cache cacheRequest hp = Inl ErrNotFoundInCache)
         \<and> (\<forall>err.
               Retrieve cache (KeyString X (ForMethod X (Key cacheRequest) ''GET'')) =
                 Inl err \<longrightarrow>
               lookup X cache cacheRequest hp = Inl err)"
  using assms by (auto simp add: lookup_def Let_def split: sum.splits if_splits)

theorem lookup_HEAD_from_GET_witness:
  "lookup env0 cache_x head_request heap0 = Inr fresh_resource \<and>
   HasExplicitExpiration fresh_resource \<and>
   lookup env0 (cache_x\<lparr>Retrieve :=
       (\<lambda>k. map_sum id (\<lambda>r. r\<lparr>HasExplicitExpiration := False\<rparr>) (Retrieve cache_x k))\<rparr>)
     head_request heap0 = Inl ErrNotFoundInCache \<and>
   lookup env0 empty_cache head_request heap0 = Inl ErrNotFoundInCache"
  using lookup_HEAD_from_GET [of head_request cache_x env0 heap0]
    lookup_HEAD_from_GET [of head_request "cache_x\<lparr>Retrieve :=
       (\<lambda>k. map_sum id (\<lambda>r. r\<lparr>HasExplicitExpiration := False\<rparr>) (Retrieve cache_x k))\<rparr>"
       env0 heap0]
    lookup_HEAD_from_GET [of head_request empty_cache env0 heap0]
  by (simp add: example_defs)

subsection \<open>newResponseParameters\<close>

text \<open>
  C9. Let the header map of the resource be a map of the heap. Whenever
  \<open>newResponseParameters\<close> succeeds, the header map that it returns is newly
  allocated: its address is not an address of the heap before the call, so it is not
  the resource's header map; every map of the heap before the call, the resource's
  among them, is unchanged after it; and a later write to the returned map, whatever it
  writes, leaves the resource's header map as it was.
\<close>

theorem newResponseParameters_fresh_headers:
  assumes "ResourceHeader resource < length hp"
    and "newResponseParameters X shared cacheRequest resource hp =
           (Inr (statusCode, contentLength, headers, body), hp')"
  shows "headers = length hp \<and> headers \<noteq> ResourceHeader resource \<and>
         length hp' = Suc (length hp) \<and> take (length hp) hp' = hp \<and>
         deref hp' (ResourceHeader resource) = deref hp (ResourceHeader resource) \<and>
         (\<forall>h. deref (hp'[headers := h]) (ResourceHeader resource) =
                deref hp (ResourceHeader resource))"
proof -
  obtain age where age: "Age resource = Inr age"
    using assms(2) by (cases "Age resource") (simp_all add: newResponseParameters_def)
  have h: "headers = length hp"
    using assms(2) age
    by (simp add: newResponseParameters_def make_Header_def Let_def split: if_splits)
  obtain m where hp': "hp' = hp @ [m]"
    using assms(2) age
    by (auto simp add: newResponseParameters_def make_Header_def Let_def split: if_splits)
  show ?thesis
    using assms(1) h hp' by (simp add: deref_def nth_append)
qed

theorem newResponseParameters_fresh_headers_witness:
  "ResourceHeader fresh_resource < length heap0 \<and>
   newResponseParameters env0 True plain_request fresh_resource heap0 =
     (Inr (200, 5, 1, ''hello''),
      heap0 @ [[(''Content-Type'', [''text/html'']), (''Set-Cookie'', [''id=7'']),
                (''Age'', [''10'']), (''Via'', [''1.1 goproxy''])]]) \<and>
   deref (heap0 @ [[(''Content-Type'', [''text/html'']), (''Set-Cookie'', [''id=7'']),
                (''Age'', [''10'']), (''Via'', [''1.1 goproxy''])]]) 0 = deref heap0 0"
proof -
  have run: "newResponseParameters env0 True plain_request fresh_resource heap0 =
     (Inr (200, 5, 1, ''hello''),
      heap0 @ [[(''Content-Type'', [''text/html'']), (''Set-Cookie'', [''id=7'']),
                (''Age'', [''10'']), (''Via'', [''1.1 goproxy''])]])"
    by (simp add: newResponseParameters_def freshness_def copy_headers_def Has_def Hour_def
        Let_def header_defs canonical_keys example_defs word_sle_eq word_sless_alt)
  have valid: "ResourceHeader fresh_resource < length heap0"
    by (simp add: example_defs)
  show ?thesis
    using newResponseParameters_fresh_headers [OF valid run] run valid
    by (simp add: fresh_resource_def)
qed

section \<open>Theorems about ext/auth/basic.go\<close>

text \<open>
  C10. For every request, decoder and authenticator, and so on every outcome of
  \<open>auth\<close> (no header, a header that is not of the scheme Basic, an encoding that
  does not decode, credentials without a colon, credentials that the authenticator
  accepts or rejects), the request after \<open>auth\<close> is the request before it without
  the header Proxy-Authorization: the header map has no such key, reading it gives the
  empty string, and nothing else of the request has changed. The authenticator is
  called after the deletion, with texts that were read before it.
\<close>

theorem auth_deletes_Proxy_Authorization:
  "snd (auth DecodeString req f) = req\<lparr>Header := Del (Header req) ''Proxy-Authorization''\<rparr> \<and>
   ''Proxy-Authorization'' \<notin> fst ` set (Header (snd (auth DecodeString req f))) \<and>
   Get (Header (snd (auth DecodeString req f))) ''Proxy-Authorization'' = ''''"
proof -
  have req': "snd (auth DecodeString req f) =
      req\<lparr>Header := Del (Header req) ''Proxy-Authorization''\<rparr>"
    by (simp add: auth_def proxyAuthorizationHeader_def Let_def split: sum.splits)
  have absent: "''Proxy-Authorization'' \<notin> fst ` set (Del (Header req) ''Proxy-Authorization'')"
    by (simp add: Del_def canonical_keys delete_notin_dom)
  have "map_of (Del (Header req) ''Proxy-Authorization'') ''Proxy-Authorization'' = None"
    by (simp add: Del_def canonical_keys delete_conv')
  then have "Get (Del (Header req) ''Proxy-Authorization'') ''Proxy-Authorization'' = ''''"
    by (simp add: Get_def index_def canonical_keys)
  then show ?thesis using req' absent by simp
qed

theorem auth_deletes_Proxy_Authorization_witness:
  "auth decode0 proxy_request accept_user =
     ((''10.0.0.1:4711'', ''user'', ''pass'', True),
      GET_x\<lparr>Header := [(''Accept'', [''*/*''])]\<rparr>) \<and>
   snd (auth decode0 GET_x accept_user) = GET_x"
  using auth_deletes_Proxy_Authorization [of decode0 proxy_request accept_user]
    auth_deletes_Proxy_Authorization [of decode0 GET_x accept_user]
  by (simp add: auth_def SplitN2_def proxyAuthorizationHeader_def Let_def header_defs
      canonical_keys example_defs)

end
